theory Spec2Isabelle
  imports Complex_Main
begin

section \<open>The Output Patcher (dsheet\_fix\_output.py)\<close>

text \<open>
  The script opens the file \<^verbatim>\<open>dsheet_test.shd\<close> in text mode, reads it with
  \<^verbatim>\<open>readlines()\<close>, reopens it for writing (which truncates it) and writes the lines
  back, the eighth one replaced by a literal.

  A file is its bytes, together with whether the locale's codec decodes them. Opening a
  missing file raises \<^verbatim>\<open>FileNotFoundError\<close>; reading a file that does not decode
  raises \<^verbatim>\<open>UnicodeDecodeError\<close>, before the file is opened for writing. For a file
  that decodes, a character of the text is identified with the bytes that encode it:
  the codec encodes carriage return, line feed and the ASCII literal as themselves, as
  UTF-8, cp1252 and Latin-1 do, and what the stream has encoded it decodes again.

  The text-mode stream translates line ends. On reading (universal newlines) each of
  CR LF, CR and LF arrives as the one character LF; on writing each LF leaves as
  \<^verbatim>\<open>os.linesep\<close>, which is LF on POSIX systems and CR LF on Windows.
\<close>

datatype error = FileNotFoundError | UnicodeDecodeError

datatype os_name = posix | nt

datatype file_content = Decodable string | Undecodable string

type_synonym file_system = "string \<rightharpoonup> file_content"

definition newline :: char where
  "newline = CHR 0x0A"

definition CR :: char where
  "CR = CHR 0x0D"

definition linesep :: "os_name \<Rightarrow> string" where
  "linesep os = (case os of posix \<Rightarrow> [newline] | nt \<Rightarrow> [CR, newline])"

definition file_name :: string where
  "file_name = ''dsheet_test.shd''"

text \<open>The translation of line ends on reading: CR LF, a lone CR and LF all become LF.\<close>

fun universal_newlines :: "string \<Rightarrow> string" where
  "universal_newlines [] = []"
| "universal_newlines [c] = [if c = CR then newline else c]"
| "universal_newlines (c # d # ds) =
     (if c = CR \<and> d = newline then newline # universal_newlines ds
      else if c = CR then newline # universal_newlines (d # ds)
      else c # universal_newlines (d # ds))"

text \<open>The translation of line ends on writing: every LF becomes \<^verbatim>\<open>os.linesep\<close>.\<close>

definition linesep_newlines :: "os_name \<Rightarrow> string \<Rightarrow> string" where
  "linesep_newlines os s = concat (map (\<lambda>c. if c = newline then linesep os else [c]) s)"

text \<open>
  \<^verbatim>\<open>f.readlines()\<close> on the translated text: the text cut after every newline
  character; each line keeps its newline, only the last line may lack one, and the empty
  text has no line.
\<close>

fun readlines :: "string \<Rightarrow> string list" where
  "readlines [] = []"
| "readlines (c # cs) =
     (if c = newline then [c] # readlines cs
      else (case readlines cs of
              [] \<Rightarrow> [[c]]
            | l # ls \<Rightarrow> (c # l) # ls))"

text \<open>
  \<^verbatim>\<open>f.writelines(s)\<close> with a string \<open>s\<close> writes the characters of \<open>s\<close> one after the
  other: it appends \<open>s\<close> to what has been written so far.
\<close>

definition writelines :: "string \<Rightarrow> string \<Rightarrow> string" where
  "writelines f s = f @ s"

definition version_line :: string where
  "version_line = ''CREATED BY : D-Sheet Piling version 19.3.1.27104 '' @ [newline]"

text \<open>
  The body of the write loop,
  \<^verbatim>\<open>for i, line in enumerate(get_all, 1): if i == 8: ... else: ...\<close>,
  run over the numbered lines with the text written so far as its state.
\<close>

fun write_loop :: "(nat \<times> string) list \<Rightarrow> string \<Rightarrow> string" where
  "write_loop [] f = f"
| "write_loop ((i, line) # rest) f =
     write_loop rest
       (if i = 8 then writelines f version_line else writelines f line)"

text \<open>
  The text the script hands to the stream in the second \<^verbatim>\<open>with\<close> block, from the
  text the stream handed to it in the first: opening with \<^verbatim>\<open>'w'\<close> starts from the
  empty file.
\<close>

definition rewrite :: "string \<Rightarrow> string" where
  "rewrite content =
     (let get_all = readlines content
      in write_loop (List.enumerate 1 get_all) [])"

text \<open>The bytes of the file after the script, from its bytes before, when they decode.\<close>

definition rewrite_file :: "os_name \<Rightarrow> string \<Rightarrow> string" where
  "rewrite_file os bytes = linesep_newlines os (rewrite (universal_newlines bytes))"

definition patcher :: "os_name \<Rightarrow> file_system \<Rightarrow> error + file_system" where
  "patcher os fs =
     (case fs file_name of
        None \<Rightarrow> Inl FileNotFoundError
      | Some (Undecodable bytes) \<Rightarrow> Inl UnicodeDecodeError
      | Some (Decodable bytes) \<Rightarrow> Inr (fs(file_name \<mapsto> Decodable (rewrite_file os bytes))))"

text \<open>Running the script a second time, when the first run did not raise.\<close>

definition patcher_twice :: "os_name \<Rightarrow> file_system \<Rightarrow> error + file_system" where
  "patcher_twice os fs =
     (case patcher os fs of
        Inl e \<Rightarrow> Inl e
      | Inr fs' \<Rightarrow> patcher os fs')"

subsection \<open>Lines of a file, lines of a text\<close>




text \<open>
  A terminated line of text ends in its only newline. In a well-formed list of lines
  every line but the last is terminated; the last is non-empty and has no newline before
  its end.
\<close>

definition terminated :: "string \<Rightarrow> bool" where
  "terminated l = (l \<noteq> [] \<and> last l = newline \<and> newline \<notin> set (butlast l))"

fun lines_ok :: "string list \<Rightarrow> bool" where
  "lines_ok [] = True"
| "lines_ok [l] = (l \<noteq> [] \<and> newline \<notin> set (butlast l))"
| "lines_ok (l # l' # ls) = (terminated l \<and> lines_ok (l' # ls))"

subsection \<open>Sample files\<close>







section \<open>The Model Builder (dsheet\_test.py)\<close>

text \<open>
  The script builds one fixed model through the object model of an external calculation
  library, serializes it and runs the solver. The library is not part of the repository:
  what the script does is the sequence of calls it issues, with their arguments. The
  model object is therefore represented by the calls it has received, oldest first, and
  every method of the library appends its call. The only value the script takes back
  from the library while it builds the model is the stage identifier that
  \<^verbatim>\<open>add_stage\<close> returns; it is a parameter of the embedding.

  Numeric literals stand for their exact decimal values; the script computes nothing
  with them.
\<close>

subsection \<open>Enumerations\<close>

text \<open>The members the script names, in its code or in its commented-out alternatives.\<close>

datatype LateralEarthPressureMethodStage = KA_KO_KP | C_PHI_DELTA

datatype PassiveSide = DSHEETPILING_DETERMINED

datatype Side = LEFT | RIGHT | BOTH

datatype SheetPilingElementMaterialType = Steel

datatype GrainType = FINE | COARSE

datatype LambdaType = KOTTER

datatype CalculationType = VERIFY_SHEETPILING

datatype VerifyType = EC7NL

datatype PartialFactorCalculationType = METHODA | METHODB

datatype PartialFactorSetEC7NADNL = RC1 | RC2

datatype LoadTypePermanentVariable = PERMANENT | VARIABLE

datatype LoadTypeFavourableUnfavourableMoment = FAVOURABLE | UNFAVOURABLE

subsection \<open>Configuration records\<close>

record SheetModelType =
  check_vertical_balance :: bool
  model_method :: LateralEarthPressureMethodStage
  trildens_calculation :: bool
  verification :: bool

record SheetPileProperties =
  material_type :: SheetPilingElementMaterialType
  section_bottom_level :: real
  elastic_stiffness_ei :: real
  acting_width :: real
  mr_char_el :: real
  modification_factor_k_mod :: real
  material_factor_gamma_m :: real
  reduction_factor_on_maximum_moment :: real
  reduction_factor_on_ei :: real
  section_area :: real
  elastic_section_modulus_w_el :: real
  coating_area :: real
  height :: real

record Sheet =
  sheet_name :: string
  sheet_pile_properties :: SheetPileProperties

text \<open>
  A soil is created with its name alone and then receives its parameters by attribute
  assignment; the records hold the attributes the script assigns, under the attribute
  paths it uses.
\<close>

record SoilWeightParameters =
  unsaturated_weight :: real
  saturated_weight :: real

record MohrCoulombParameters =
  cohesion :: real
  friction_angle :: real
  friction_angle_interface :: real

record SoilState =
  ocr_layer :: real

record SoilClassificationParameters =
  grain_type :: GrainType

record SubgradeReactionParameters =
  lambda_type :: LambdaType
  k_1_top_side :: real
  k_1_bottom_side :: real
  k_2_top_side :: real
  k_2_bottom_side :: real
  k_3_top_side :: real
  k_3_bottom_side :: real

record Soil =
  soil_name :: string
  soil_weight_parameters :: SoilWeightParameters
  mohr_coulomb_parameters :: MohrCoulombParameters
  shell_factor :: real
  soil_state :: SoilState
  soil_classification_parameters :: SoilClassificationParameters
  subgrade_reaction_parameters :: SubgradeReactionParameters

text \<open>
  A layer refers to its soil by name. The two water pressures are optional arguments:
  \<open>None\<close> where the script leaves them out.
\<close>

record SoilLayer =
  top_of_layer :: real
  soil :: string
  water_pressure_top :: "real option"
  water_pressure_bottom :: "real option"

record SoilProfile =
  profile_name :: string
  layers :: "SoilLayer list"

record Point =
  point_x :: real
  point_z :: real

record Surface =
  surface_name :: string
  points :: "Point list"

record WaterLevel =
  water_level_name :: string
  level :: real

record VerifyCalculationOptions =
  input_calculation_type :: CalculationType
  verify_type :: VerifyType
  ec7_nl_method :: PartialFactorCalculationType
  calc_reduce_deltas :: bool

record CalculationOptionsPerStage =
  partial_factor_set :: PartialFactorSetEC7NADNL

record Strut =
  strut_name :: string
  strut_level :: real
  strut_side :: Side
  e_modulus :: real
  cross_section :: real
  strut_length :: real
  angle :: real
  buckling_force :: real
  pre_compression :: real

record VerificationLoadSettings =
  duration_type :: LoadTypePermanentVariable
  load_type :: LoadTypeFavourableUnfavourableMoment

record UniformLoad =
  load_name :: string
  left_load :: real
  right_load :: real
  verification_load_settings :: VerificationLoadSettings

subsection \<open>The library's model object\<close>

type_synonym stage_id = int

datatype call =
    SetModel SheetModelType
  | SetConstruction real "Sheet list"
  | AddStage string PassiveSide LateralEarthPressureMethodStage
      LateralEarthPressureMethodStage stage_id
  | AddSoil Soil
  | AddProfile SoilProfile Side stage_id
  | AddSurface Surface Side stage_id
  | AddHeadLine WaterLevel Side stage_id
  | SetCalculationOptions VerifyCalculationOptions
  | AddCalculationOptionsPerStage CalculationOptionsPerStage stage_id
  | AddAnchorOrStrut Strut stage_id
  | AddLoad UniformLoad stage_id
  | Serialize string
  | Execute

type_synonym DSheetPilingModel = "call list"

text \<open>
  The \<^verbatim>\<open>add_stage\<close> calls a model has received: name, passive side, the two
  methods, and the identifier the library returned.
\<close>

definition add_stage_calls ::
  "DSheetPilingModel \<Rightarrow>
     (string \<times> PassiveSide \<times> LateralEarthPressureMethodStage \<times>
      LateralEarthPressureMethodStage \<times> stage_id) list" where
  "add_stage_calls m =
     List.map_filter
       (\<lambda>c. case c of AddStage n p l r s \<Rightarrow> Some (n, p, l, r, s) | _ \<Rightarrow> None) m"

definition set_model :: "SheetModelType \<Rightarrow> DSheetPilingModel \<Rightarrow> DSheetPilingModel" where
  "set_model modeltype m = m @ [SetModel modeltype]"

definition set_construction ::
  "real \<Rightarrow> Sheet list \<Rightarrow> DSheetPilingModel \<Rightarrow> DSheetPilingModel" where
  "set_construction top_level elements m = m @ [SetConstruction top_level elements]"

text \<open>
  \<^verbatim>\<open>add_stage\<close> returns the identifier of the new stage. \<open>ids k\<close> is the identifier
  the library gives to the stage added when the model already has \<open>k\<close> stages.
\<close>

definition add_stage ::
  "(nat \<Rightarrow> stage_id) \<Rightarrow> string \<Rightarrow> PassiveSide \<Rightarrow> LateralEarthPressureMethodStage \<Rightarrow>
     LateralEarthPressureMethodStage \<Rightarrow> DSheetPilingModel \<Rightarrow> stage_id \<times> DSheetPilingModel" where
  "add_stage ids name passive_side method_left method_right m =
     (let new_id = ids (length (add_stage_calls m))
      in (new_id, m @ [AddStage name passive_side method_left method_right new_id]))"

definition add_soil :: "Soil \<Rightarrow> DSheetPilingModel \<Rightarrow> DSheetPilingModel" where
  "add_soil s m = m @ [AddSoil s]"

definition add_profile ::
  "SoilProfile \<Rightarrow> Side \<Rightarrow> stage_id \<Rightarrow> DSheetPilingModel \<Rightarrow> DSheetPilingModel" where
  "add_profile profile side stage m = m @ [AddProfile profile side stage]"

definition add_surface ::
  "Surface \<Rightarrow> Side \<Rightarrow> stage_id \<Rightarrow> DSheetPilingModel \<Rightarrow> DSheetPilingModel" where
  "add_surface surface side stage m = m @ [AddSurface surface side stage]"

definition add_head_line ::
  "WaterLevel \<Rightarrow> Side \<Rightarrow> stage_id \<Rightarrow> DSheetPilingModel \<Rightarrow> DSheetPilingModel" where
  "add_head_line water_level side stage m = m @ [AddHeadLine water_level side stage]"

definition set_calculation_options ::
  "VerifyCalculationOptions \<Rightarrow> DSheetPilingModel \<Rightarrow> DSheetPilingModel" where
  "set_calculation_options calculation_options m =
     m @ [SetCalculationOptions calculation_options]"

definition add_calculation_options_per_stage ::
  "CalculationOptionsPerStage \<Rightarrow> stage_id \<Rightarrow> DSheetPilingModel \<Rightarrow> DSheetPilingModel" where
  "add_calculation_options_per_stage calculation_options_per_stage stage m =
     m @ [AddCalculationOptionsPerStage calculation_options_per_stage stage]"

definition add_anchor_or_strut ::
  "Strut \<Rightarrow> stage_id \<Rightarrow> DSheetPilingModel \<Rightarrow> DSheetPilingModel" where
  "add_anchor_or_strut support stage m = m @ [AddAnchorOrStrut support stage]"

definition add_load :: "UniformLoad \<Rightarrow> stage_id \<Rightarrow> DSheetPilingModel \<Rightarrow> DSheetPilingModel" where
  "add_load load stage m = m @ [AddLoad load stage]"

definition serialize :: "string \<Rightarrow> DSheetPilingModel \<Rightarrow> DSheetPilingModel" where
  "serialize path m = m @ [Serialize path]"

definition execute :: "DSheetPilingModel \<Rightarrow> DSheetPilingModel" where
  "execute m = m @ [Execute]"

subsection \<open>The values the script constructs\<close>

definition modeltype :: SheetModelType where
  "modeltype =
     \<lparr>check_vertical_balance = False, model_method = KA_KO_KP,
      trildens_calculation = False, verification = True\<rparr>"

definition sheet_pile_properties_AZ18_700_S355 :: SheetPileProperties where
  "sheet_pile_properties_AZ18_700_S355 =
     \<lparr>material_type = Steel, section_bottom_level = - 20,
      elastic_stiffness_ei = 79380, acting_width = 1, mr_char_el = 639,
      modification_factor_k_mod = 1, material_factor_gamma_m = 1,
      reduction_factor_on_maximum_moment = 1, reduction_factor_on_ei = 1,
      section_area = 139, elastic_section_modulus_w_el = 1800,
      coating_area = 1.33, height = 420\<rparr>"

definition sheet_pile_properties_AZ20_700_S355 :: SheetPileProperties where
  "sheet_pile_properties_AZ20_700_S355 =
     \<lparr>material_type = Steel, section_bottom_level = - 20,
      elastic_stiffness_ei = 86016, acting_width = 1, mr_char_el = 690,
      modification_factor_k_mod = 1, material_factor_gamma_m = 1,
      reduction_factor_on_maximum_moment = 1, reduction_factor_on_ei = 1,
      section_area = 152, elastic_section_modulus_w_el = 1945,
      coating_area = 1.33, height = 421\<rparr>"

definition sheet_pile_properties_AZ26_700_S355 :: SheetPileProperties where
  "sheet_pile_properties_AZ26_700_S355 =
     \<lparr>material_type = Steel, section_bottom_level = - 20,
      elastic_stiffness_ei = 125412, acting_width = 1, mr_char_el = 923,
      modification_factor_k_mod = 1, material_factor_gamma_m = 1,
      reduction_factor_on_maximum_moment = 1, reduction_factor_on_ei = 1,
      section_area = 187, elastic_section_modulus_w_el = 2600,
      coating_area = 1.38, height = 460\<rparr>"

definition sheet_element :: Sheet where
  "sheet_element =
     \<lparr>sheet_name = ''AZ 20-700 S355'',
      sheet_pile_properties = sheet_pile_properties_AZ20_700_S355\<rparr>"

definition level_top :: real where
  "level_top = 0"

definition soil_clay :: Soil where
  "soil_clay =
     \<lparr>soil_name = ''Clay'',
      soil_weight_parameters = \<lparr>unsaturated_weight = 10, saturated_weight = 11\<rparr>,
      mohr_coulomb_parameters =
        \<lparr>cohesion = 10, friction_angle = 17, friction_angle_interface = 11\<rparr>,
      shell_factor = 1,
      soil_state = \<lparr>ocr_layer = 1\<rparr>,
      soil_classification_parameters = \<lparr>grain_type = FINE\<rparr>,
      subgrade_reaction_parameters =
        \<lparr>lambda_type = KOTTER, k_1_top_side = 4000, k_1_bottom_side = 4000,
         k_2_top_side = 2000, k_2_bottom_side = 2000,
         k_3_top_side = 800, k_3_bottom_side = 800\<rparr>\<rparr>"

definition soil_peat :: Soil where
  "soil_peat =
     \<lparr>soil_name = ''Peat'',
      soil_weight_parameters = \<lparr>unsaturated_weight = 10, saturated_weight = 11\<rparr>,
      mohr_coulomb_parameters =
        \<lparr>cohesion = 2, friction_angle = 20, friction_angle_interface = 0\<rparr>,
      shell_factor = 1,
      soil_state = \<lparr>ocr_layer = 1\<rparr>,
      soil_classification_parameters = \<lparr>grain_type = FINE\<rparr>,
      subgrade_reaction_parameters =
        \<lparr>lambda_type = KOTTER, k_1_top_side = 2000, k_1_bottom_side = 2000,
         k_2_top_side = 800, k_2_bottom_side = 800,
         k_3_top_side = 500, k_3_bottom_side = 500\<rparr>\<rparr>"

definition soil_sand_moderate :: Soil where
  "soil_sand_moderate =
     \<lparr>soil_name = ''Sand moderate'',
      soil_weight_parameters = \<lparr>unsaturated_weight = 17, saturated_weight = 19\<rparr>,
      mohr_coulomb_parameters =
        \<lparr>cohesion = 0, friction_angle = 32.5, friction_angle_interface = 21.7\<rparr>,
      shell_factor = 1,
      soil_state = \<lparr>ocr_layer = 1\<rparr>,
      soil_classification_parameters = \<lparr>grain_type = COARSE\<rparr>,
      subgrade_reaction_parameters =
        \<lparr>lambda_type = KOTTER, k_1_top_side = 20000, k_1_bottom_side = 20000,
         k_2_top_side = 10000, k_2_bottom_side = 10000,
         k_3_top_side = 5000, k_3_bottom_side = 5000\<rparr>\<rparr>"

definition soil_sand_dense :: Soil where
  "soil_sand_dense =
     \<lparr>soil_name = ''Sand dense'',
      soil_weight_parameters = \<lparr>unsaturated_weight = 19, saturated_weight = 21\<rparr>,
      mohr_coulomb_parameters =
        \<lparr>cohesion = 0, friction_angle = 35, friction_angle_interface = 23.3\<rparr>,
      shell_factor = 1,
      soil_state = \<lparr>ocr_layer = 1\<rparr>,
      soil_classification_parameters = \<lparr>grain_type = COARSE\<rparr>,
      subgrade_reaction_parameters =
        \<lparr>lambda_type = KOTTER, k_1_top_side = 40000, k_1_bottom_side = 40000,
         k_2_top_side = 20000, k_2_bottom_side = 20000,
         k_3_top_side = 10000, k_3_bottom_side = 10000\<rparr>\<rparr>"

text \<open>\<^verbatim>\<open>SoilLayer(top_of_layer=..., soil=..., water_pressure_top=..., water_pressure_bottom=...)\<close>\<close>

definition mk_SoilLayer :: "real \<Rightarrow> string \<Rightarrow> real option \<Rightarrow> real option \<Rightarrow> SoilLayer" where
  "mk_SoilLayer t s wt wb =
     \<lparr>top_of_layer = t, soil = s, water_pressure_top = wt, water_pressure_bottom = wb\<rparr>"

definition profile_initial :: SoilProfile where
  "profile_initial =
     \<lparr>profile_name = ''Profile initial'',
      layers =
        [mk_SoilLayer 0 (soil_name soil_clay) None None,
         mk_SoilLayer (- 3) (soil_name soil_peat) None None,
         mk_SoilLayer (- 4) (soil_name soil_sand_moderate) None None,
         mk_SoilLayer (- 8) (soil_name soil_clay) None None,
         mk_SoilLayer (- 13) (soil_name soil_sand_moderate) None None,
         mk_SoilLayer (- 18) (soil_name soil_sand_dense) None None]\<rparr>"

definition profile_first_excavation :: SoilProfile where
  "profile_first_excavation =
     \<lparr>profile_name = ''Profile first excavation'',
      layers =
        [mk_SoilLayer 0 (soil_name soil_clay) None None,
         mk_SoilLayer (- 3) (soil_name soil_peat) None None,
         mk_SoilLayer (- 4) (soil_name soil_sand_moderate) None None,
         mk_SoilLayer (- 8) (soil_name soil_clay) None (Some 15),
         mk_SoilLayer (- 13) (soil_name soil_sand_moderate) (Some 15) (Some 15),
         mk_SoilLayer (- 18) (soil_name soil_sand_dense) (Some 15) (Some 15)]\<rparr>"

definition profile_pit_dry :: SoilProfile where
  "profile_pit_dry =
     \<lparr>profile_name = ''Profile pit dry'',
      layers =
        [mk_SoilLayer 0 (soil_name soil_clay) None None,
         mk_SoilLayer (- 3) (soil_name soil_peat) None None,
         mk_SoilLayer (- 4) (soil_name soil_sand_moderate) None None,
         mk_SoilLayer (- 8) (soil_name soil_clay) None (Some 70),
         mk_SoilLayer (- 13) (soil_name soil_sand_moderate) (Some 70) (Some 70),
         mk_SoilLayer (- 18) (soil_name soil_sand_dense) (Some 70) (Some 70)]\<rparr>"

definition surface_ground_level :: Surface where
  "surface_ground_level =
     \<lparr>surface_name = ''Initial surface level'', points = [\<lparr>point_x = 0, point_z = 0\<rparr>]\<rparr>"

definition surface_first_excavation :: Surface where
  "surface_first_excavation =
     \<lparr>surface_name = ''Excavated NAP-2 m'', points = [\<lparr>point_x = 0, point_z = - 2\<rparr>]\<rparr>"

definition surface_full_excavation :: Surface where
  "surface_full_excavation =
     \<lparr>surface_name = ''Excavated NAP-8 m'', points = [\<lparr>point_x = 0, point_z = - 8\<rparr>]\<rparr>"

definition water_level_initial :: WaterLevel where
  "water_level_initial = \<lparr>water_level_name = ''Water level NAP-1.0 m'', level = - 1\<rparr>"

definition water_level_min2_5 :: WaterLevel where
  "water_level_min2_5 = \<lparr>water_level_name = ''Water level NAP-2.5 m'', level = - 2.5\<rparr>"

definition water_level_min_8 :: WaterLevel where
  "water_level_min_8 = \<lparr>water_level_name = ''Water level NAP-8.0 m'', level = - 8\<rparr>"

definition calc_options :: VerifyCalculationOptions where
  "calc_options =
     \<lparr>input_calculation_type = VERIFY_SHEETPILING, verify_type = EC7NL,
      ec7_nl_method = METHODB, calc_reduce_deltas = True\<rparr>"

definition calc_options_per_stage :: CalculationOptionsPerStage where
  "calc_options_per_stage = \<lparr>partial_factor_set = RC2\<rparr>"

definition strut1 :: Strut where
  "strut1 =
     \<lparr>strut_name = ''Strut'', strut_level = - 1.5, strut_side = LEFT,
      e_modulus = 210000000, cross_section = 0.004, strut_length = 10,
      angle = 0.001, buckling_force = 10000, pre_compression = 10\<rparr>"

definition uniform_load_20kPa :: UniformLoad where
  "uniform_load_20kPa =
     \<lparr>load_name = ''Surface load 20 kPa'', left_load = 0, right_load = 20,
      verification_load_settings =
        \<lparr>duration_type = VARIABLE, load_type = UNFAVOURABLE\<rparr>\<rparr>"

definition uniform_load_pit_dry :: UniformLoad where
  "uniform_load_pit_dry =
     \<lparr>load_name = ''Surface load 70 kPa'', left_load = 70, right_load = 0,
      verification_load_settings =
        \<lparr>duration_type = PERMANENT, load_type = FAVOURABLE\<rparr>\<rparr>"

definition dsheet_file :: string where
  "dsheet_file = ''dsheet_test.shi''"

subsection \<open>The script\<close>

text \<open>
  \<^verbatim>\<open>calculate_sheet_pile()\<close>, statement by statement: the model is threaded through
  the calls, each \<^verbatim>\<open>for\<close> loop is a \<open>fold\<close> over its list of stages, and the result
  is the model after \<^verbatim>\<open>model.execute()\<close>. The solver's output, which the script only
  prints, is opaque and not represented.
\<close>

definition calculate_sheet_pile :: "(nat \<Rightarrow> stage_id) \<Rightarrow> DSheetPilingModel" where
  "calculate_sheet_pile ids =
     (let model = [];
          model = set_model modeltype model;
          model = set_construction level_top [sheet_element] model;
          (stage_initial, model) =
            add_stage ids ''Initial stage'' DSHEETPILING_DETERMINED KA_KO_KP KA_KO_KP model;
          (stage_first_excavation, model) =
            add_stage ids ''First excavation'' DSHEETPILING_DETERMINED KA_KO_KP KA_KO_KP model;
          (stage_strut, model) =
            add_stage ids ''Place struts'' DSHEETPILING_DETERMINED KA_KO_KP KA_KO_KP model;
          (stage_wet_excavation, model) =
            add_stage ids ''Wet excavation'' DSHEETPILING_DETERMINED KA_KO_KP KA_KO_KP model;
          (stage_pit_dry, model) =
            add_stage ids ''Pit dry'' DSHEETPILING_DETERMINED KA_KO_KP KA_KO_KP model;
          model = fold add_soil [soil_clay, soil_peat, soil_sand_moderate, soil_sand_dense] model;
          model = fold (add_profile profile_initial BOTH)
            [stage_initial, stage_first_excavation, stage_strut, stage_wet_excavation,
             stage_pit_dry] model;
          model = fold (add_profile profile_first_excavation LEFT)
            [stage_first_excavation, stage_strut] model;
          model = fold (add_profile profile_pit_dry LEFT) [stage_pit_dry] model;
          model = fold (add_surface surface_ground_level RIGHT)
            [stage_initial, stage_first_excavation, stage_strut, stage_wet_excavation,
             stage_pit_dry] model;
          model = fold (add_surface surface_first_excavation LEFT)
            [stage_first_excavation, stage_strut] model;
          model = fold (add_surface surface_full_excavation LEFT)
            [stage_wet_excavation, stage_pit_dry] model;
          model = fold (add_head_line water_level_initial BOTH)
            [stage_initial, stage_first_excavation, stage_strut, stage_wet_excavation,
             stage_pit_dry] model;
          model = fold (add_head_line water_level_min2_5 LEFT)
            [stage_first_excavation, stage_strut] model;
          model = fold (add_head_line water_level_min_8 LEFT) [stage_pit_dry] model;
          model = set_calculation_options calc_options model;
          model = fold (add_calculation_options_per_stage calc_options_per_stage)
            [stage_first_excavation, stage_strut, stage_wet_excavation, stage_pit_dry] model;
          model = fold (add_anchor_or_strut strut1)
            [stage_strut, stage_wet_excavation, stage_pit_dry] model;
          model = fold (add_load uniform_load_20kPa)
            [stage_first_excavation, stage_strut, stage_wet_excavation, stage_pit_dry] model;
          model = fold (add_load uniform_load_pit_dry) [stage_pit_dry] model;
          model = serialize dsheet_file model;
          model = execute model
      in model)"

subsection \<open>Reading a model's calls\<close>

definition add_soil_calls :: "DSheetPilingModel \<Rightarrow> Soil list" where
  "add_soil_calls m =
     List.map_filter (\<lambda>c. case c of AddSoil s \<Rightarrow> Some s | _ \<Rightarrow> None) m"

definition add_profile_calls :: "DSheetPilingModel \<Rightarrow> (SoilProfile \<times> Side \<times> stage_id) list" where
  "add_profile_calls m =
     List.map_filter (\<lambda>c. case c of AddProfile p sd s \<Rightarrow> Some (p, sd, s) | _ \<Rightarrow> None) m"

definition add_anchor_or_strut_calls :: "DSheetPilingModel \<Rightarrow> (Strut \<times> stage_id) list" where
  "add_anchor_or_strut_calls m =
     List.map_filter (\<lambda>c. case c of AddAnchorOrStrut st s \<Rightarrow> Some (st, s) | _ \<Rightarrow> None) m"

definition add_load_calls :: "DSheetPilingModel \<Rightarrow> (UniformLoad \<times> stage_id) list" where
  "add_load_calls m =
     List.map_filter (\<lambda>c. case c of AddLoad l s \<Rightarrow> Some (l, s) | _ \<Rightarrow> None) m"

text \<open>The identifier the library returned for the stage added under a name, if any.\<close>

definition stage_named :: "string \<Rightarrow> DSheetPilingModel \<Rightarrow> stage_id option" where
  "stage_named n m = map_of (map (\<lambda>(n, p, l, r, s). (n, s)) (add_stage_calls m)) n"

text \<open>The stages a load, or a support, was registered for: one entry per call.\<close>

definition stages_with_load :: "UniformLoad \<Rightarrow> DSheetPilingModel \<Rightarrow> stage_id list" where
  "stages_with_load l m = map snd (filter (\<lambda>(l', s). l' = l) (add_load_calls m))"

definition stages_with_support :: "Strut \<Rightarrow> DSheetPilingModel \<Rightarrow> stage_id list" where
  "stages_with_support st m =
     map snd (filter (\<lambda>(st', s). st' = st) (add_anchor_or_strut_calls m))"

definition is_add_soil :: "call \<Rightarrow> bool" where
  "is_add_soil c = (case c of AddSoil s \<Rightarrow> True | _ \<Rightarrow> False)"

definition is_add_profile :: "call \<Rightarrow> bool" where
  "is_add_profile c = (case c of AddProfile p sd s \<Rightarrow> True | _ \<Rightarrow> False)"

text \<open>
  Every \<open>P\<close>-call of a model precedes every \<open>Q\<close>-call: from the first \<open>Q\<close>-call on,
  no call is a \<open>P\<close>-call.
\<close>

definition all_before :: "(call \<Rightarrow> bool) \<Rightarrow> (call \<Rightarrow> bool) \<Rightarrow> DSheetPilingModel \<Rightarrow> bool" where
  "all_before P Q m = list_all (\<lambda>c. \<not> P c) (dropWhile (\<lambda>c. \<not> Q c) m)"

text \<open>
  Every profile refers to registered soils only: going through the calls with the names
  of the soils added so far, each layer of each profile added names one of them.
\<close>

fun references_registered :: "string list \<Rightarrow> DSheetPilingModel \<Rightarrow> bool" where
  "references_registered reg [] = True"
| "references_registered reg (AddSoil s # cs) = references_registered (soil_name s # reg) cs"
| "references_registered reg (AddProfile p sd sid # cs) =
     (list_all (\<lambda>l. soil l \<in> set reg) (layers p) \<and> references_registered reg cs)"
| "references_registered reg (c # cs) = references_registered reg cs"

text \<open>Each layer's top lies strictly below the top of the layer before it.\<close>

definition strictly_decreasing_tops :: "SoilProfile \<Rightarrow> bool" where
  "strictly_decreasing_tops p =
     successively (\<lambda>upper lower. lower < upper) (map top_of_layer (layers p))"

text \<open>The library's own numbering of stages: 0, 1, 2, ...\<close>

definition counting_ids :: "nat \<Rightarrow> stage_id" where
  "counting_ids k = int k"

section \<open>Properties of the Patcher\<close>

lemma concat_readlines: "concat (readlines s) = s"
  by (induction s) (auto split: list.splits)

lemma readlines_eq_Nil: "readlines s = [] \<longleftrightarrow> s = []"
  by (cases s) (auto split: list.splits)

lemma lines_ok_readlines: "lines_ok (readlines s)"
proof (induction s)
  case Nil
  show ?case by simp
next
  case (Cons c cs)
  show ?case
  proof (cases "c = newline")
    case True
    then show ?thesis
      using Cons by (cases "readlines cs") (simp_all add: terminated_def)
  next
    case False
    show ?thesis
    proof (cases "readlines cs")
      case Nil
      with False show ?thesis by simp
    next
      case (Cons l ls)
      have "l \<noteq> []"
        using Cons.IH Cons by (cases ls) (simp_all add: terminated_def)
      with False Cons.IH Cons show ?thesis
        by (cases ls) (simp_all add: terminated_def)
    qed
  qed
qed

lemma readlines_terminated_append:
  "terminated l \<Longrightarrow> readlines (l @ s) = l # readlines s"
proof (induction l)
  case Nil
  then show ?case by (simp add: terminated_def)
next
  case (Cons c cs)
  show ?case
  proof (cases "cs = []")
    case True
    with Cons.prems show ?thesis by (simp add: terminated_def)
  next
    case False
    with Cons.prems have "terminated cs" and "c \<noteq> newline"
      by (auto simp: terminated_def)
    with Cons.IH show ?thesis by simp
  qed
qed

lemma readlines_single:
  "l \<noteq> [] \<Longrightarrow> newline \<notin> set (butlast l) \<Longrightarrow> readlines l = [l]"
proof (induction l)
  case Nil
  then show ?case by simp
next
  case (Cons c cs)
  show ?case
  proof (cases "cs = []")
    case True
    then show ?thesis by simp
  next
    case False
    with Cons.prems have "c \<noteq> newline" and "newline \<notin> set (butlast cs)"
      by auto
    with False Cons.IH show ?thesis by simp
  qed
qed

lemma readlines_concat: "lines_ok ls \<Longrightarrow> readlines (concat ls) = ls"
proof (induction ls rule: lines_ok.induct)
  case 1
  show ?case by simp
next
  case (2 l)
  then show ?case by (simp add: readlines_single)
next
  case (3 l l' ls)
  then show ?case by (simp add: readlines_terminated_append)
qed

lemma terminated_version_line: "terminated version_line"
  by (simp add: terminated_def version_line_def newline_def)

lemma lines_ok_update:
  "lines_ok ls \<Longrightarrow> terminated v \<Longrightarrow> lines_ok (ls[i := v])"
proof (induction ls arbitrary: i rule: lines_ok.induct)
  case 1
  show ?case by simp
next
  case (2 l)
  then show ?case by (cases i) (simp_all add: terminated_def)
next
  case (3 l l' ls)
  show ?case
  proof (cases i)
    case 0
    with 3 show ?thesis by simp
  next
    case (Suc j)
    have "lines_ok ((l' # ls)[j := v])"
      using 3 by simp
    with 3 Suc show ?thesis by (cases j) simp_all
  qed
qed

lemma write_loop_concat:
  "write_loop es f =
     f @ concat (map (\<lambda>(i, line). if i = 8 then version_line else line) es)"
  by (induction es f rule: write_loop.induct) (simp_all add: writelines_def)

lemma map_enumerate_update:
  "map (\<lambda>(i, line). if i = k then v else line) (List.enumerate n xs) =
     (if n \<le> k \<and> k < n + length xs then xs[k - n := v] else xs)"
proof (induction xs arbitrary: n)
  case Nil
  show ?case by simp
next
  case (Cons x xs)
  show ?case
  proof (cases "n = k")
    case True
    then show ?thesis by (simp add: Cons)
  next
    case False
    show ?thesis
    proof (cases "n < k")
      case True
      then obtain j where j: "k - n = Suc j" "k - Suc n = j"
        by (cases "k - n") auto
      with True False show ?thesis by (auto simp: Cons)
    next
      case False
      with \<open>n \<noteq> k\<close> show ?thesis by (simp add: Cons)
    qed
  qed
qed

lemma rewrite_long:
  "8 \<le> length (readlines content) \<Longrightarrow>
     rewrite content = concat ((readlines content)[7 := version_line])"
  by (simp add: rewrite_def write_loop_concat map_enumerate_update)

lemma rewrite_short:
  "length (readlines content) < 8 \<Longrightarrow> rewrite content = content"
  by (simp add: rewrite_def write_loop_concat map_enumerate_update concat_readlines)

lemma readlines_rewrite_long:
  "8 \<le> length (readlines content) \<Longrightarrow>
     readlines (rewrite content) = (readlines content)[7 := version_line]"
  by (simp add: rewrite_long readlines_concat lines_ok_update lines_ok_readlines
      terminated_version_line)

lemma rewrite_rewrite: "rewrite (rewrite content) = rewrite content"
proof (cases "8 \<le> length (readlines content)")
  case True
  let ?ls = "(readlines content)[7 := version_line]"
  have ls: "readlines (rewrite content) = ?ls"
    using True by (rule readlines_rewrite_long)
  then have "8 \<le> length (readlines (rewrite content))"
    using True by simp
  then have "rewrite (rewrite content) =
      concat ((readlines (rewrite content))[7 := version_line])"
    by (rule rewrite_long)
  also have "\<dots> = concat ?ls"
    by (simp add: ls)
  also have "\<dots> = rewrite content"
    using True by (rule rewrite_long [symmetric])
  finally show ?thesis .
next
  case False
  then show ?thesis by (simp add: rewrite_short)
qed

subsection \<open>The stream's translation of line ends\<close>

lemma CR_neq_newline: "CR \<noteq> newline"
  by (simp add: CR_def newline_def)

lemma no_CR_universal_newlines: "CR \<notin> set (universal_newlines s)"
  by (induction s rule: universal_newlines.induct) (auto simp: CR_neq_newline)

lemma universal_newlines_no_CR: "CR \<notin> set s \<Longrightarrow> universal_newlines s = s"
  by (induction s rule: universal_newlines.induct) auto

lemma linesep_newlines_simps:
  "linesep_newlines os [] = []"
  "linesep_newlines os (c # cs) =
     (if c = newline then linesep os else [c]) @ linesep_newlines os cs"
  by (simp_all add: linesep_newlines_def)

lemma linesep_newlines_posix: "linesep_newlines posix s = s"
  by (induction s) (simp_all add: linesep_newlines_simps linesep_def)

lemma universal_linesep_newlines:
  "CR \<notin> set s \<Longrightarrow> universal_newlines (linesep_newlines os s) = s"
proof (cases os)
  case posix
  assume "CR \<notin> set s"
  with posix show ?thesis
    by (simp add: linesep_newlines_posix universal_newlines_no_CR)
next
  case nt
  assume "CR \<notin> set s"
  then have "universal_newlines (linesep_newlines nt s) = s"
  proof (induction s)
    case Nil
    show ?case by (simp add: linesep_newlines_simps)
  next
    case (Cons c cs)
    then have c: "c \<noteq> CR" and IH: "universal_newlines (linesep_newlines nt cs) = cs"
      by auto
    show ?case
    proof (cases "c = newline")
      case True
      with IH show ?thesis
        by (simp add: linesep_newlines_simps linesep_def)
    next
      case False
      with c IH show ?thesis
        by (cases "linesep_newlines nt cs") (simp_all add: linesep_newlines_simps)
    qed
  qed
  with nt show ?thesis by simp
qed








lemma set_rewrite: "set (rewrite s) \<subseteq> set s \<union> set version_line"
proof (cases "8 \<le> length (readlines s)")
  case True
  have "set (rewrite s) = \<Union> (set ` set ((readlines s)[7 := version_line]))"
    using True by (simp add: rewrite_long)
  also have "\<dots> \<subseteq> \<Union> (set ` insert version_line (set (readlines s)))"
    using set_update_subset_insert [of "readlines s" 7 version_line] by blast
  also have "\<dots> = set version_line \<union> set (concat (readlines s))"
    by simp
  finally show ?thesis
    by (auto simp: concat_readlines)
next
  case False
  then show ?thesis by (simp add: rewrite_short)
qed

lemma no_CR_version_line: "CR \<notin> set version_line"
  by (simp add: version_line_def CR_def newline_def)

lemma no_CR_rewrite: "CR \<notin> set s \<Longrightarrow> CR \<notin> set (rewrite s)"
  using set_rewrite [of s] no_CR_version_line by auto






subsection \<open>The rewritten file\<close>

lemma universal_newlines_rewrite_file:
  "universal_newlines (rewrite_file os bytes) = rewrite (universal_newlines bytes)"
  by (simp add: rewrite_file_def universal_linesep_newlines no_CR_rewrite
      no_CR_universal_newlines)

lemma rewrite_file_rewrite_file:
  "rewrite_file os (rewrite_file os bytes) = rewrite_file os bytes"
proof -
  have "rewrite_file os (rewrite_file os bytes) =
      linesep_newlines os (rewrite (universal_newlines (rewrite_file os bytes)))"
    by (simp add: rewrite_file_def)
  also have "\<dots> = linesep_newlines os (rewrite (rewrite (universal_newlines bytes)))"
    by (simp only: universal_newlines_rewrite_file)
  also have "\<dots> = rewrite_file os bytes"
    by (simp add: rewrite_rewrite rewrite_file_def)
  finally show ?thesis .
qed









subsection \<open>Line 8 is replaced, the other lines keep their text\<close>





subsection \<open>Short files keep their text\<close>




subsection \<open>Idempotence\<close>

text \<open>
  Claim C3. The Patcher is idempotent. Rewriting a rewritten text gives the same text,
  for every text; rewriting the bytes of a rewritten file gives the same bytes, on
  either system; and on every file system, running the Patcher twice ends as running it
  once does (with the same file system, or with the same error when the file is missing
  or does not decode).
\<close>

theorem patcher_idempotent:
  "rewrite (rewrite content) = rewrite content
    \<and> rewrite_file os (rewrite_file os bytes) = rewrite_file os bytes
    \<and> patcher_twice os fs = patcher os fs"
proof -
  have "patcher_twice os fs = patcher os fs"
  proof (cases "fs file_name")
    case None
    then show ?thesis by (simp add: patcher_twice_def patcher_def)
  next
    case (Some content)
    then show ?thesis
      by (cases content)
        (simp_all add: patcher_twice_def patcher_def rewrite_file_rewrite_file)
  qed
  then show ?thesis
    by (simp add: rewrite_rewrite rewrite_file_rewrite_file)
qed

subsection \<open>An unterminated eighth line\<close>







section \<open>Properties of the Builder\<close>

lemmas library_calls =
  set_model_def set_construction_def add_stage_def add_soil_def add_profile_def
  add_surface_def add_head_line_def set_calculation_options_def
  add_calculation_options_per_stage_def add_anchor_or_strut_def add_load_def
  serialize_def execute_def

text \<open>The calls the script issues, in order.\<close>

lemma calculate_sheet_pile_calls:
  "calculate_sheet_pile ids =
     [SetModel modeltype,
      SetConstruction level_top [sheet_element],
      AddStage ''Initial stage'' DSHEETPILING_DETERMINED KA_KO_KP KA_KO_KP (ids 0),
      AddStage ''First excavation'' DSHEETPILING_DETERMINED KA_KO_KP KA_KO_KP (ids 1),
      AddStage ''Place struts'' DSHEETPILING_DETERMINED KA_KO_KP KA_KO_KP (ids 2),
      AddStage ''Wet excavation'' DSHEETPILING_DETERMINED KA_KO_KP KA_KO_KP (ids 3),
      AddStage ''Pit dry'' DSHEETPILING_DETERMINED KA_KO_KP KA_KO_KP (ids 4),
      AddSoil soil_clay, AddSoil soil_peat, AddSoil soil_sand_moderate, AddSoil soil_sand_dense,
      AddProfile profile_initial BOTH (ids 0),
      AddProfile profile_initial BOTH (ids 1),
      AddProfile profile_initial BOTH (ids 2),
      AddProfile profile_initial BOTH (ids 3),
      AddProfile profile_initial BOTH (ids 4),
      AddProfile profile_first_excavation LEFT (ids 1),
      AddProfile profile_first_excavation LEFT (ids 2),
      AddProfile profile_pit_dry LEFT (ids 4),
      AddSurface surface_ground_level RIGHT (ids 0),
      AddSurface surface_ground_level RIGHT (ids 1),
      AddSurface surface_ground_level RIGHT (ids 2),
      AddSurface surface_ground_level RIGHT (ids 3),
      AddSurface surface_ground_level RIGHT (ids 4),
      AddSurface surface_first_excavation LEFT (ids 1),
      AddSurface surface_first_excavation LEFT (ids 2),
      AddSurface surface_full_excavation LEFT (ids 3),
      AddSurface surface_full_excavation LEFT (ids 4),
      AddHeadLine water_level_initial BOTH (ids 0),
      AddHeadLine water_level_initial BOTH (ids 1),
      AddHeadLine water_level_initial BOTH (ids 2),
      AddHeadLine water_level_initial BOTH (ids 3),
      AddHeadLine water_level_initial BOTH (ids 4),
      AddHeadLine water_level_min2_5 LEFT (ids 1),
      AddHeadLine water_level_min2_5 LEFT (ids 2),
      AddHeadLine water_level_min_8 LEFT (ids 4),
      SetCalculationOptions calc_options,
      AddCalculationOptionsPerStage calc_options_per_stage (ids 1),
      AddCalculationOptionsPerStage calc_options_per_stage (ids 2),
      AddCalculationOptionsPerStage calc_options_per_stage (ids 3),
      AddCalculationOptionsPerStage calc_options_per_stage (ids 4),
      AddAnchorOrStrut strut1 (ids 2),
      AddAnchorOrStrut strut1 (ids 3),
      AddAnchorOrStrut strut1 (ids 4),
      AddLoad uniform_load_20kPa (ids 1),
      AddLoad uniform_load_20kPa (ids 2),
      AddLoad uniform_load_20kPa (ids 3),
      AddLoad uniform_load_20kPa (ids 4),
      AddLoad uniform_load_pit_dry (ids 4),
      Serialize dsheet_file,
      Execute]"
  by (simp add: calculate_sheet_pile_def library_calls add_stage_calls_def Let_def
      List.map_filter_simps numeral_2_eq_2 numeral_3_eq_3 eval_nat_numeral)

lemma add_stage_calls_script:
  "add_stage_calls (calculate_sheet_pile ids) =
     [(''Initial stage'', DSHEETPILING_DETERMINED, KA_KO_KP, KA_KO_KP, ids 0),
      (''First excavation'', DSHEETPILING_DETERMINED, KA_KO_KP, KA_KO_KP, ids 1),
      (''Place struts'', DSHEETPILING_DETERMINED, KA_KO_KP, KA_KO_KP, ids 2),
      (''Wet excavation'', DSHEETPILING_DETERMINED, KA_KO_KP, KA_KO_KP, ids 3),
      (''Pit dry'', DSHEETPILING_DETERMINED, KA_KO_KP, KA_KO_KP, ids 4)]"
  by (simp add: calculate_sheet_pile_calls add_stage_calls_def List.map_filter_simps)

lemma stage_named_script:
  "stage_named ''Initial stage'' (calculate_sheet_pile ids) = Some (ids 0)"
  "stage_named ''First excavation'' (calculate_sheet_pile ids) = Some (ids 1)"
  "stage_named ''Place struts'' (calculate_sheet_pile ids) = Some (ids 2)"
  "stage_named ''Wet excavation'' (calculate_sheet_pile ids) = Some (ids 3)"
  "stage_named ''Pit dry'' (calculate_sheet_pile ids) = Some (ids 4)"
  by (simp_all add: stage_named_def add_stage_calls_script)

lemma add_load_calls_script:
  "add_load_calls (calculate_sheet_pile ids) =
     [(uniform_load_20kPa, ids 1), (uniform_load_20kPa, ids 2),
      (uniform_load_20kPa, ids 3), (uniform_load_20kPa, ids 4),
      (uniform_load_pit_dry, ids 4)]"
  by (simp add: calculate_sheet_pile_calls add_load_calls_def List.map_filter_simps)

lemma add_anchor_or_strut_calls_script:
  "add_anchor_or_strut_calls (calculate_sheet_pile ids) =
     [(strut1, ids 2), (strut1, ids 3), (strut1, ids 4)]"
  by (simp add: calculate_sheet_pile_calls add_anchor_or_strut_calls_def
      List.map_filter_simps)

lemma add_soil_calls_script:
  "add_soil_calls (calculate_sheet_pile ids) =
     [soil_clay, soil_peat, soil_sand_moderate, soil_sand_dense]"
  by (simp add: calculate_sheet_pile_calls add_soil_calls_def List.map_filter_simps)

lemma add_profile_calls_script:
  "add_profile_calls (calculate_sheet_pile ids) =
     [(profile_initial, BOTH, ids 0), (profile_initial, BOTH, ids 1),
      (profile_initial, BOTH, ids 2), (profile_initial, BOTH, ids 3),
      (profile_initial, BOTH, ids 4),
      (profile_first_excavation, LEFT, ids 1), (profile_first_excavation, LEFT, ids 2),
      (profile_pit_dry, LEFT, ids 4)]"
  by (simp add: calculate_sheet_pile_calls add_profile_calls_def List.map_filter_simps)

lemma loads_differ: "uniform_load_20kPa \<noteq> uniform_load_pit_dry"
  by (simp add: uniform_load_20kPa_def uniform_load_pit_dry_def)

lemma profiles_differ:
  "profile_initial \<noteq> profile_first_excavation"
  "profile_initial \<noteq> profile_pit_dry"
  "profile_first_excavation \<noteq> profile_pit_dry"
  by (simp_all add: profile_initial_def profile_first_excavation_def profile_pit_dry_def)

subsection \<open>The five stages\<close>

text \<open>
  Claim C6. Whatever identifiers the library returns, the script issues exactly five
  \<^verbatim>\<open>add_stage\<close> calls, in the order Initial stage, First excavation, Place struts,
  Wet excavation, Pit dry, each with the method \<open>KA_KO_KP\<close> on the left and on the
  right side.
\<close>

theorem builder_five_stages:
  "map (\<lambda>(n, p, l, r, s). (n, l, r)) (add_stage_calls (calculate_sheet_pile ids)) =
     [(''Initial stage'', KA_KO_KP, KA_KO_KP),
      (''First excavation'', KA_KO_KP, KA_KO_KP),
      (''Place struts'', KA_KO_KP, KA_KO_KP),
      (''Wet excavation'', KA_KO_KP, KA_KO_KP),
      (''Pit dry'', KA_KO_KP, KA_KO_KP)]
   \<and> length (add_stage_calls (calculate_sheet_pile ids)) = 5"
  by (simp add: add_stage_calls_script)

subsection \<open>The surface loads\<close>

text \<open>
  Claim C4. When the library gives the five stages five different identifiers, the
  script's \<^verbatim>\<open>add_load\<close> calls are five: the 20 kPa load (variable, unfavourable) for
  the stages First excavation, Place struts, Wet excavation and Pit dry, one call each,
  and the 70 kPa load (permanent, favourable) for the stage Pit dry, one call. No pair of
  load and stage is registered twice, and no call names the Initial stage.
\<close>

theorem builder_loads:
  assumes "distinct [ids 0, ids 1, ids 2, ids 3, ids 4]"
  shows "map Some (stages_with_load uniform_load_20kPa (calculate_sheet_pile ids)) =
      map (\<lambda>n. stage_named n (calculate_sheet_pile ids))
        [''First excavation'', ''Place struts'', ''Wet excavation'', ''Pit dry'']
    \<and> map Some (stages_with_load uniform_load_pit_dry (calculate_sheet_pile ids)) =
      [stage_named ''Pit dry'' (calculate_sheet_pile ids)]
    \<and> map fst (add_load_calls (calculate_sheet_pile ids)) =
      [uniform_load_20kPa, uniform_load_20kPa, uniform_load_20kPa, uniform_load_20kPa,
       uniform_load_pit_dry]
    \<and> distinct (add_load_calls (calculate_sheet_pile ids))
    \<and> stage_named ''Initial stage'' (calculate_sheet_pile ids) = Some (ids 0)
    \<and> ids 0 \<notin> set (map snd (add_load_calls (calculate_sheet_pile ids)))
    \<and> right_load uniform_load_20kPa = 20
    \<and> verification_load_settings uniform_load_20kPa =
        \<lparr>duration_type = VARIABLE, load_type = UNFAVOURABLE\<rparr>
    \<and> left_load uniform_load_pit_dry = 70
    \<and> verification_load_settings uniform_load_pit_dry =
        \<lparr>duration_type = PERMANENT, load_type = FAVOURABLE\<rparr>"
proof -
  have "uniform_load_pit_dry \<noteq> uniform_load_20kPa"
    using loads_differ by simp
  then have with_load:
    "stages_with_load uniform_load_20kPa (calculate_sheet_pile ids) =
       [ids 1, ids 2, ids 3, ids 4]"
    "stages_with_load uniform_load_pit_dry (calculate_sheet_pile ids) = [ids 4]"
    using loads_differ by (simp_all add: stages_with_load_def add_load_calls_script)
  have load_values:
    "right_load uniform_load_20kPa = 20"
    "verification_load_settings uniform_load_20kPa =
       \<lparr>duration_type = VARIABLE, load_type = UNFAVOURABLE\<rparr>"
    "left_load uniform_load_pit_dry = 70"
    "verification_load_settings uniform_load_pit_dry =
       \<lparr>duration_type = PERMANENT, load_type = FAVOURABLE\<rparr>"
    by (simp_all add: uniform_load_20kPa_def uniform_load_pit_dry_def)
  have "distinct (add_load_calls (calculate_sheet_pile ids))"
    using assms loads_differ by (simp add: add_load_calls_script)
  moreover have "ids 0 \<notin> set (map snd (add_load_calls (calculate_sheet_pile ids)))"
    using assms by (simp add: add_load_calls_script)
  ultimately show ?thesis
    by (simp add: with_load load_values stage_named_script add_load_calls_script)
qed

theorem builder_loads_witness:
  "distinct [counting_ids 0, counting_ids 1, counting_ids 2, counting_ids 3, counting_ids 4]
    \<and> map Some (stages_with_load uniform_load_20kPa (calculate_sheet_pile counting_ids)) =
        [Some 1, Some 2, Some 3, Some 4]
    \<and> map Some (stages_with_load uniform_load_pit_dry (calculate_sheet_pile counting_ids)) =
        [Some 4]
    \<and> stage_named ''Initial stage'' (calculate_sheet_pile counting_ids) = Some 0
    \<and> 0 \<notin> set (map snd (add_load_calls (calculate_sheet_pile counting_ids)))
    \<and> distinct (add_load_calls (calculate_sheet_pile counting_ids))"
proof -
  have c: "counting_ids 0 = 0" "counting_ids (Suc 0) = 1" "counting_ids 2 = 2"
    "counting_ids 3 = 3" "counting_ids 4 = 4"
    by (simp_all add: counting_ids_def)
  have d: "distinct [counting_ids 0, counting_ids 1, counting_ids 2, counting_ids 3,
      counting_ids 4]"
    by (simp add: c)
  from builder_loads [of counting_ids, OF d] d show ?thesis
    by (simp add: stage_named_script c)
qed

subsection \<open>The strut\<close>

text \<open>
  Claim C9. When the library gives the five stages five different identifiers, the
  script's \<^verbatim>\<open>add_anchor_or_strut\<close> calls are three, all with the one strut record it
  builds, for the stages Place struts, Wet excavation and Pit dry, one call each; no call
  names the Initial stage or the First excavation stage.
\<close>

theorem builder_strut:
  assumes "distinct [ids 0, ids 1, ids 2, ids 3, ids 4]"
  shows "map fst (add_anchor_or_strut_calls (calculate_sheet_pile ids)) =
      [strut1, strut1, strut1]
    \<and> map Some (stages_with_support strut1 (calculate_sheet_pile ids)) =
      map (\<lambda>n. stage_named n (calculate_sheet_pile ids))
        [''Place struts'', ''Wet excavation'', ''Pit dry'']
    \<and> distinct (add_anchor_or_strut_calls (calculate_sheet_pile ids))
    \<and> stage_named ''Initial stage'' (calculate_sheet_pile ids) = Some (ids 0)
    \<and> ids 0 \<notin> set (map snd (add_anchor_or_strut_calls (calculate_sheet_pile ids)))
    \<and> stage_named ''First excavation'' (calculate_sheet_pile ids) = Some (ids 1)
    \<and> ids 1 \<notin> set (map snd (add_anchor_or_strut_calls (calculate_sheet_pile ids)))
    \<and> strut1 =
      \<lparr>strut_name = ''Strut'', strut_level = - 1.5, strut_side = LEFT,
       e_modulus = 210000000, cross_section = 0.004, strut_length = 10,
       angle = 0.001, buckling_force = 10000, pre_compression = 10\<rparr>"
proof -
  have "stages_with_support strut1 (calculate_sheet_pile ids) = [ids 2, ids 3, ids 4]"
    by (simp add: stages_with_support_def add_anchor_or_strut_calls_script)
  moreover have "distinct (add_anchor_or_strut_calls (calculate_sheet_pile ids))"
    using assms by (simp add: add_anchor_or_strut_calls_script)
  moreover have
    "ids 0 \<notin> set (map snd (add_anchor_or_strut_calls (calculate_sheet_pile ids)))"
    "ids 1 \<notin> set (map snd (add_anchor_or_strut_calls (calculate_sheet_pile ids)))"
    using assms by (simp_all add: add_anchor_or_strut_calls_script)
  ultimately show ?thesis
    by (simp add: stage_named_script add_anchor_or_strut_calls_script strut1_def)
qed

theorem builder_strut_witness:
  "distinct [counting_ids 0, counting_ids 1, counting_ids 2, counting_ids 3, counting_ids 4]
    \<and> map Some (stages_with_support strut1 (calculate_sheet_pile counting_ids)) =
        [Some 2, Some 3, Some 4]
    \<and> stage_named ''Initial stage'' (calculate_sheet_pile counting_ids) = Some 0
    \<and> 0 \<notin> set (map snd (add_anchor_or_strut_calls (calculate_sheet_pile counting_ids)))
    \<and> stage_named ''First excavation'' (calculate_sheet_pile counting_ids) = Some 1
    \<and> 1 \<notin> set (map snd (add_anchor_or_strut_calls (calculate_sheet_pile counting_ids)))"
proof -
  have c: "counting_ids 0 = 0" "counting_ids (Suc 0) = 1" "counting_ids 2 = 2"
    "counting_ids 3 = 3" "counting_ids 4 = 4"
    by (simp_all add: counting_ids_def)
  have d: "distinct [counting_ids 0, counting_ids 1, counting_ids 2, counting_ids 3,
      counting_ids 4]"
    by (simp add: c)
  from builder_strut [of counting_ids, OF d] d show ?thesis
    by (simp add: stage_named_script c)
qed

subsection \<open>Soils are registered before profiles use them\<close>

text \<open>
  Claim C7. Whatever identifiers the library returns, the script registers four soils,
  Clay, Peat, Sand moderate and Sand dense, in this order; it adds eight profiles; every
  \<^verbatim>\<open>add_soil\<close> call precedes every \<^verbatim>\<open>add_profile\<close> call; and each layer of each
  profile added names a soil that has been registered by then.
\<close>

theorem builder_soils_before_profiles:
  "map soil_name (add_soil_calls (calculate_sheet_pile ids)) =
      [''Clay'', ''Peat'', ''Sand moderate'', ''Sand dense'']
    \<and> length (add_profile_calls (calculate_sheet_pile ids)) = 8
    \<and> all_before is_add_soil is_add_profile (calculate_sheet_pile ids)
    \<and> references_registered [] (calculate_sheet_pile ids)"
proof -
  have names: "map soil_name (add_soil_calls (calculate_sheet_pile ids)) =
      [''Clay'', ''Peat'', ''Sand moderate'', ''Sand dense'']"
    by (simp add: add_soil_calls_script soil_clay_def soil_peat_def
        soil_sand_moderate_def soil_sand_dense_def)
  have count: "length (add_profile_calls (calculate_sheet_pile ids)) = 8"
    by (simp add: add_profile_calls_script)
  have order: "all_before is_add_soil is_add_profile (calculate_sheet_pile ids)"
    by (simp add: all_before_def calculate_sheet_pile_calls is_add_soil_def
        is_add_profile_def)
  have refs: "references_registered [] (calculate_sheet_pile ids)"
    by (simp add: calculate_sheet_pile_calls profile_initial_def
        profile_first_excavation_def profile_pit_dry_def mk_SoilLayer_def
        soil_clay_def soil_peat_def soil_sand_moderate_def soil_sand_dense_def)
  from names count order refs show ?thesis
    by blast
qed

subsection \<open>Layers go downwards\<close>

text \<open>
  Claim C8. The profiles the script adds are three, Profile initial, Profile first
  excavation and Profile pit dry, and in each of them every layer's top lies strictly
  below the top of the layer before it: the tops are 0, -3, -4, -8, -13, -18.
\<close>

theorem builder_profiles_strictly_decreasing:
  "remdups (map fst (add_profile_calls (calculate_sheet_pile ids))) =
      [profile_initial, profile_first_excavation, profile_pit_dry]
    \<and> map profile_name [profile_initial, profile_first_excavation, profile_pit_dry] =
      [''Profile initial'', ''Profile first excavation'', ''Profile pit dry'']
    \<and> strictly_decreasing_tops profile_initial
    \<and> strictly_decreasing_tops profile_first_excavation
    \<and> strictly_decreasing_tops profile_pit_dry
    \<and> map (\<lambda>p. map top_of_layer (layers p))
        [profile_initial, profile_first_excavation, profile_pit_dry] =
      [[0, - 3, - 4, - 8, - 13, - 18], [0, - 3, - 4, - 8, - 13, - 18],
       [0, - 3, - 4, - 8, - 13, - 18]]"
proof -
  have added: "remdups (map fst (add_profile_calls (calculate_sheet_pile ids))) =
      [profile_initial, profile_first_excavation, profile_pit_dry]"
    using profiles_differ by (simp add: add_profile_calls_script)
  have tops: "map top_of_layer (layers profile_initial) = [0, - 3, - 4, - 8, - 13, - 18]"
    "map top_of_layer (layers profile_first_excavation) = [0, - 3, - 4, - 8, - 13, - 18]"
    "map top_of_layer (layers profile_pit_dry) = [0, - 3, - 4, - 8, - 13, - 18]"
    by (simp_all add: profile_initial_def profile_first_excavation_def
        profile_pit_dry_def mk_SoilLayer_def)
  have decreasing: "strictly_decreasing_tops profile_initial"
    "strictly_decreasing_tops profile_first_excavation"
    "strictly_decreasing_tops profile_pit_dry"
    by (simp_all add: strictly_decreasing_tops_def tops)
  have names: "map profile_name [profile_initial, profile_first_excavation, profile_pit_dry] =
      [''Profile initial'', ''Profile first excavation'', ''Profile pit dry'']"
    by (simp add: profile_initial_def profile_first_excavation_def profile_pit_dry_def)
  from added tops decreasing names show ?thesis
    by simp
qed

end
